theory Spec2Isabelle
  imports Complex_Main
begin

section \<open>js-methods/map.js: Array.prototype.myMap\<close>

text \<open>
  An exception of the JavaScript program is a value: a \<open>TypeError\<close> with its message,
  whoever threw it, or any other thrown value.
\<close>

datatype 'e exn = TypeError string | Thrown 'e


text \<open>
  A callback is called as \<open>callback.call(thisArgs, this[i], i, this)\<close>: it receives
  the \<open>this\<close> argument, the element, the index and the array, and either returns a value
  or throws; what it throws may be a \<open>TypeError\<close>. It is a function of its arguments only
  (a pure callback): it cannot change the array it is given.
\<close>

type_synonym ('t, 'a, 'b, 'e) callback = "'t \<Rightarrow> 'a \<Rightarrow> nat \<Rightarrow> 'a list \<Rightarrow> 'e exn + 'b"

text \<open>
  The value passed as \<open>callback\<close>: a function, or any value whose \<open>typeof\<close> is not
  \<open>'function'\<close>. Of such a value the code uses only its conversion to a string, in the
  template literal \<open>`${callback}`\<close>, so it is kept as what that conversion gives: the string
  (\<open>undefined\<close>, \<open>42\<close>, \<open>[object Object]\<close>, ...), or the exception the conversion throws (a
  \<open>TypeError\<close> for a symbol, anything for an object whose \<open>toString\<close> throws).
\<close>

datatype ('t, 'a, 'b, 'e) jsval = Fn "('t, 'a, 'b, 'e) callback" | NonFn "'e exn + string"


text \<open>
  The loop \<open>for (let i = 0; i < this.length; i++) result.push(callback.call(...))\<close>,
  with the loop variable and the array built so far as arguments. The array \<open>this\<close> has
  no holes: it is a list.
\<close>

function myMap_loop ::
  "('t, 'a, 'b, 'e) callback \<Rightarrow> 't \<Rightarrow> 'a list \<Rightarrow> nat \<Rightarrow> 'b list \<Rightarrow> 'e exn + 'b list" where
  "myMap_loop callback thisArgs this i result =
     (if i < length this then
        (case callback thisArgs (this ! i) i this of
           Inl thrown \<Rightarrow> Inl thrown
         | Inr v \<Rightarrow> myMap_loop callback thisArgs this (i + 1) (result @ [v]))
      else Inr result)"
  by pat_completeness auto
termination
  by (relation "measure (\<lambda>(callback, thisArgs, this, i, result). length this - i)") auto

declare myMap_loop.simps [simp del]

definition myMap ::
  "('t, 'a, 'b, 'e) jsval \<Rightarrow> 't \<Rightarrow> 'a list \<Rightarrow> 'e exn + 'b list" where
  "myMap callback thisArgs this =
     (case callback of
        NonFn conversion \<Rightarrow>
          (case conversion of
             Inl thrown \<Rightarrow> Inl thrown
           | Inr s \<Rightarrow> Inl (TypeError (s @ '' is not a function'')))
      | Fn f \<Rightarrow> myMap_loop f thisArgs this 0 [])"

text \<open>
  The built-in \<open>Array.prototype.map\<close>, after the language standard, for comparison with
  \<open>myMap\<close>: the length is read once, the result array \<open>A\<close> is created with that length
  (every index a hole, \<open>None\<close>), and for \<open>k = 0, 1, ...\<close> below the length the value
  \<open>callbackfn.call(thisArg, O[k], k, O)\<close> is stored at index \<open>k\<close> of \<open>A\<close>.
\<close>

function builtin_map_loop ::
  "('t, 'a, 'b, 'e) callback \<Rightarrow> 't \<Rightarrow> 'a list \<Rightarrow> nat \<Rightarrow> nat \<Rightarrow> 'b option list
     \<Rightarrow> 'e exn + 'b option list" where
  "builtin_map_loop callbackfn thisArg O' len k A =
     (if k < len then
        (case callbackfn thisArg (O' ! k) k O' of
           Inl thrown \<Rightarrow> Inl thrown
         | Inr mappedValue \<Rightarrow>
             builtin_map_loop callbackfn thisArg O' len (k + 1) (A[k := Some mappedValue]))
      else Inr A)"
  by pat_completeness auto
termination
  by (relation "measure (\<lambda>(callbackfn, thisArg, O', len, k, A). len - k)") auto

declare builtin_map_loop.simps [simp del]

definition builtin_map ::
  "('t, 'a, 'b, 'e) callback \<Rightarrow> 't \<Rightarrow> 'a list \<Rightarrow> 'e exn + 'b option list" where
  "builtin_map callbackfn thisArg O' =
     (let len = length O' in builtin_map_loop callbackfn thisArg O' len 0 (replicate len None))"


text \<open>
  The callback of the file's own call of \<open>myMap\<close>,
  \<open>(user, idx, array) => { return { fullName: `${user.fname} ${user.lname}` }; }\<close>, on
  an array whose elements are \<open>null\<close> or objects like those of \<open>users\<close>. Reading a
  property of \<open>null\<close> throws a \<open>TypeError\<close> (the message is the engine's).
\<close>

record user =
  user_id :: int
  fname :: string
  lname :: string



section \<open>star-rating/script.js: the star-rating widget\<close>

text \<open>
  An element of the page: its tag, its class list, its \<open>innerHTML\<close>, and the listeners
  \<open>renderStars\<close> attaches. The three listeners of a star (\<open>mouseover\<close>, \<open>mouseout\<close>,
  \<open>click\<close>) close over the loop variable \<open>i\<close> of the iteration that created the star:
  \<open>listeners = Some i\<close>. An element with no listeners has \<open>None\<close>.
\<close>

record element =
  tagName :: string
  classList :: "string list"
  innerHTML :: string
  listeners :: "int option"

text \<open>
  The page the script works on: the children of \<open>#star-container\<close>, the \<open>innerText\<close> of
  \<open>#rating-value\<close>, the variable \<open>rating\<close>, and the requests sent to a backend so far.
  The document has both elements, and outside the container it has no element of class
  \<open>star\<close>.
\<close>

record page =
  starContainer :: "element list"
  ratingValue :: string
  rating :: int
  network :: "string list"

definition TOTAL_STARS :: int where
  "TOTAL_STARS = 5"

text \<open>\<open>classList.add\<close> and \<open>classList.remove\<close>: a class list holds a class once.\<close>

definition classList_add :: "string \<Rightarrow> element \<Rightarrow> element" where
  "classList_add c e =
     (if c \<in> set (classList e) then e else e\<lparr>classList := classList e @ [c]\<rparr>)"

definition classList_remove :: "string \<Rightarrow> element \<Rightarrow> element" where
  "classList_remove c e = e\<lparr>classList := filter (\<lambda>x. x \<noteq> c) (classList e)\<rparr>"

definition has_class :: "string \<Rightarrow> element \<Rightarrow> bool" where
  "has_class c e = (c \<in> set (classList e))"

definition createElement :: "string \<Rightarrow> element" where
  "createElement tag = \<lparr>tagName = tag, classList = [], innerHTML = [], listeners = None\<rparr>"

text \<open>The text of a star: the character U+2605, three bytes in UTF-8.\<close>

definition star_text :: string where
  "star_text = [char_of (226 :: nat), char_of (152 :: nat), char_of (133 :: nat)]"

text \<open>
  One iteration of the loop of \<open>renderStars\<close> creates this element: a \<open>span\<close> of class
  \<open>star\<close> with the star as its content and the three listeners closing over \<open>i\<close>.
\<close>

definition new_star :: "int \<Rightarrow> element" where
  "new_star i =
     (let star = createElement ''span'';
          star = classList_add ''star'' star;
          star = star\<lparr>innerHTML := star_text\<rparr>;
          star = star\<lparr>listeners := Some i\<rparr>
      in star)"

function renderStars_loop :: "int \<Rightarrow> int \<Rightarrow> page \<Rightarrow> page" where
  "renderStars_loop totalStars i p =
     (if i < totalStars then
        renderStars_loop totalStars (i + 1) (p\<lparr>starContainer := starContainer p @ [new_star i]\<rparr>)
      else p)"
  by pat_completeness auto
termination
  by (relation "measure (\<lambda>(totalStars, i, p). nat (totalStars - i))") auto

declare renderStars_loop.simps [simp del]

definition renderStars :: "int \<Rightarrow> page \<Rightarrow> page" where
  "renderStars totalStars p = renderStars_loop totalStars 0 (p\<lparr>starContainer := []\<rparr>)"

text \<open>
  \<open>highlightStars\<close>: \<open>querySelectorAll('.star')\<close> selects the elements of class \<open>star\<close> in
  document order, and \<open>forEach\<close> passes each with its index among the selected ones.
  Elements that are not of class \<open>star\<close> are passed over and do not count.
\<close>

fun highlight_forEach :: "int \<Rightarrow> int \<Rightarrow> element list \<Rightarrow> element list" where
  "highlight_forEach index r [] = []"
| "highlight_forEach index r (star # rest) =
     (if has_class ''star'' star then
        (if index < r then classList_add ''filled'' star else classList_remove ''filled'' star)
          # highlight_forEach (index + 1) r rest
      else star # highlight_forEach index r rest)"

definition highlightStars :: "int \<Rightarrow> page \<Rightarrow> page" where
  "highlightStars r p = p\<lparr>starContainer := highlight_forEach 0 r (starContainer p)\<rparr>"

definition querySelectorAll_star :: "page \<Rightarrow> element list" where
  "querySelectorAll_star p = filter (has_class ''star'') (starContainer p)"

text \<open>
  A number assigned to \<open>innerText\<close> becomes its decimal string (for an integer below
  \<open>10^21\<close> in absolute value, the digits and a minus sign when negative).
\<close>

function digits :: "nat \<Rightarrow> string" where
  "digits n =
     (if n < 10 then [char_of (48 + n)] else digits (n div 10) @ [char_of (48 + n mod 10)])"
  by pat_completeness auto
termination
  by (relation "measure id") auto

declare digits.simps [simp del]

definition number_to_string :: "int \<Rightarrow> string" where
  "number_to_string n = (if n < 0 then CHR ''-'' # digits (nat (- n)) else digits (nat n))"

text \<open>
  The events the widget handles, each on the child of \<open>#star-container\<close> at a position.
  An event at a position past the last child, or on an element without listeners, runs no
  listener.
\<close>

datatype event = Mouseover nat | Mouseout nat | Click nat

definition mouseover_listener :: "int \<Rightarrow> page \<Rightarrow> page" where
  "mouseover_listener i p = highlightStars (i + 1) p"

definition mouseout_listener :: "int \<Rightarrow> page \<Rightarrow> page" where
  "mouseout_listener i p = highlightStars (rating p) p"

definition click_listener :: "int \<Rightarrow> page \<Rightarrow> page" where
  "click_listener i p =
     (let p = p\<lparr>rating := i + 1\<rparr>;
          p = p\<lparr>ratingValue := number_to_string (rating p)\<rparr>
      in p)"

definition listener_of :: "nat \<Rightarrow> page \<Rightarrow> int option" where
  "listener_of k p =
     (if k < length (starContainer p) then listeners (starContainer p ! k) else None)"

fun dispatch :: "event \<Rightarrow> page \<Rightarrow> page" where
  "dispatch (Mouseover k) p =
     (case listener_of k p of None \<Rightarrow> p | Some i \<Rightarrow> mouseover_listener i p)"
| "dispatch (Mouseout k) p =
     (case listener_of k p of None \<Rightarrow> p | Some i \<Rightarrow> mouseout_listener i p)"
| "dispatch (Click k) p =
     (case listener_of k p of None \<Rightarrow> p | Some i \<Rightarrow> click_listener i p)"

text \<open>
  The script: \<open>let rating = 0\<close>, then \<open>renderStars(TOTAL_STARS)\<close>, on the page as the
  document was loaded. After it the page changes by the events it receives.
\<close>

definition script :: "page \<Rightarrow> page" where
  "script html = renderStars TOTAL_STARS (html\<lparr>rating := 0\<rparr>)"

definition run :: "event list \<Rightarrow> page \<Rightarrow> page" where
  "run events p = foldl (\<lambda>q ev. dispatch ev q) p events"

text \<open>
  The shape \<open>renderStars(TOTAL_STARS)\<close> gives the container, which the events keep: the
  child at position \<open>k\<close> is of class \<open>star\<close> and its listeners close over \<open>k\<close>. And the
  range of the rating.
\<close>

definition rendered :: "page \<Rightarrow> bool" where
  "rendered p =
     (map listeners (starContainer p) = map (\<lambda>k. Some (int k)) [0..<nat TOTAL_STARS] \<and>
      list_all (has_class ''star'') (starContainer p))"

definition rating_in_range :: "page \<Rightarrow> bool" where
  "rating_in_range p = (0 \<le> rating p \<and> rating p \<le> TOTAL_STARS)"

section \<open>dependancy-injection/02-dependancy-injection.md: the DI example\<close>

text \<open>
  A promise, by its state: not settled yet, fulfilled with a value, or rejected with a
  reason.
\<close>

datatype 'a promise = Pending | Fulfilled 'a | Rejected string

text \<open>
  \<open>interface Uploader { upload: (filename: string) => Promise<boolean> }\<close>. A call of
  \<open>upload\<close> gives the lines it writes to the console while it runs and the promise it
  returns.
\<close>

record Uploader =
  upload :: "string \<Rightarrow> string list \<times> bool promise"

text \<open>
  The two classes of the example. Their \<open>upload\<close> is an \<open>async\<close> method with no \<open>await\<close> in
  its body: it logs one line and returns \<open>true\<close>, so the promise it hands back is already
  fulfilled with \<open>true\<close>.
\<close>

definition S3Uploader :: "string \<Rightarrow> Uploader" where
  "S3Uploader bucket =
     \<lparr>upload = (\<lambda>filename.
        ([''Uploading '' @ filename @ '' to S3 in bucket '' @ bucket @ ''...''],
         Fulfilled True))\<rparr>"

definition ClUploader :: "string \<Rightarrow> Uploader" where
  "ClUploader bucket =
     \<lparr>upload = (\<lambda>filename.
        ([''Uploading '' @ filename @ '' to Cloudinary in bucket '' @ bucket @ ''...''],
         Fulfilled True))\<rparr>"

text \<open>
  The response object of the web framework: \<open>res.status(n)\<close> sets the status code and
  \<open>res.json(obj)\<close> sends \<open>obj\<close> as the body. A JSON object is its list of keys and values.
\<close>

record response =
  statusCode :: nat
  body :: "(string \<times> string) list option"

definition res_status :: "nat \<Rightarrow> response \<Rightarrow> response" where
  "res_status n res = res\<lparr>statusCode := n\<rparr>"

definition res_json :: "(string \<times> string) list \<Rightarrow> response \<Rightarrow> response" where
  "res_json obj res = res\<lparr>body := Some obj\<rparr>"

text \<open>
  What a request handler works on: the console, the response, and the promises that were
  created and that nothing waits for (no \<open>await\<close>, no handler attached).
\<close>

record world =
  console :: "string list"
  res :: response
  unawaited :: "bool promise list"

definition fresh :: world where
  "fresh = \<lparr>console = [], res = \<lparr>statusCode = 200, body = None\<rparr>, unawaited = []\<rparr>"

text \<open>\<open>class FileController { constructor(private uploader: Uploader) {} ... }\<close>\<close>

record FileController =
  uploader :: Uploader

text \<open>
  \<open>FileController.upload\<close> as the example has it: the call of \<open>this.uploader.upload\<close> is a
  statement of its own, so the promise it returns is dropped, and \<open>res.json\<close> follows.
\<close>

definition FileController_upload :: "FileController \<Rightarrow> world \<Rightarrow> world" where
  "FileController_upload this w =
     (let (logged, p) = upload (uploader this) ''sample-file.mp4'';
          w = w\<lparr>console := console w @ logged, unawaited := unawaited w @ [p]\<rparr>;
          w = w\<lparr>res := res_json [(''message'', ''File uploaded successfully!'')] (res w)\<rparr>
      in w)"

text \<open>
  The version the document gives as the fix, \<open>await this.uploader.upload(...)\<close>: the
  statement after the \<open>await\<close> runs once the promise is fulfilled; a rejected promise makes
  the \<open>await\<close> throw, and while the promise is pending the method stays suspended.
\<close>

definition FileController_upload_awaited :: "FileController \<Rightarrow> world \<Rightarrow> world" where
  "FileController_upload_awaited this w =
     (let (logged, p) = upload (uploader this) ''sample-file.mp4'';
          w = w\<lparr>console := console w @ logged\<rparr>
      in case p of
           Fulfilled v \<Rightarrow>
             w\<lparr>res := res_json [(''message'', ''File uploaded successfully!'')] (res w)\<rparr>
         | Rejected reason \<Rightarrow> w
         | Pending \<Rightarrow> w)"

text \<open>
  A value of \<open>req.query\<close>: absent, a string, or what the query parser builds from repeated
  and bracketed keys (an array, an object).
\<close>

datatype query_value =
    QUndefined
  | QString string
  | QArray "query_value list"
  | QObject "(string \<times> query_value) list"

text \<open>The handler of \<open>app.get("/file-upload", ...)\<close>, on \<open>req.query.uploader\<close>.\<close>

definition file_upload_route :: "query_value \<Rightarrow> world \<Rightarrow> world" where
  "file_upload_route uploaderStr w =
     (if uploaderStr = QString ''s3'' then
        (let uploader = S3Uploader ''my-s3-bucket''
         in FileController_upload \<lparr>uploader = uploader\<rparr> w)
      else if uploaderStr = QString ''cloudinary'' then
        (let uploader = ClUploader ''my-cloudinary-bucket''
         in FileController_upload \<lparr>uploader = uploader\<rparr> w)
      else
        w\<lparr>res := res_json [(''message'', ''Invalid uploader specified'')]
                 (res_status 400 (res w))\<rparr>)"

section \<open>use-boolean-like-pro/app.js: getDiscount\<close>

subsection \<open>Numbers\<close>

text \<open>
  A JavaScript number is a double: a finite value (a rational that a double can hold,
  \<open>Finite 0\<close> being \<open>+0\<close>), \<open>-0\<close>, an infinity, or \<open>NaN\<close>.
\<close>

datatype number = Finite rat | NegZero | PosInf | NegInf | NaN

definition pow2 :: "int \<Rightarrow> rat" where
  "pow2 e = (if 0 \<le> e then 2 ^ nat e else 1 / 2 ^ nat (- e))"

function bit_length :: "int \<Rightarrow> nat" where
  "bit_length n = (if n \<le> 0 then 0 else 1 + bit_length (n div 2))"
  by pat_completeness auto
termination
  by (relation "measure nat") auto

declare bit_length.simps [simp del]

text \<open>
  The binary exponent of a rational \<open>x\<close> other than zero: the \<open>e\<close> with
  \<open>2^e \<le> |x| < 2^(e+1)\<close>.
\<close>

definition exponent :: "rat \<Rightarrow> int" where
  "exponent x =
     (if 1 \<le> \<bar>x\<bar> then int (bit_length \<lfloor>\<bar>x\<bar>\<rfloor>) - 1
      else - int (bit_length (\<lceil>1 / \<bar>x\<bar>\<rceil> - 1)))"

text \<open>
  The distance between neighbouring doubles around \<open>x\<close>: 53 significant bits, and the
  fixed spacing \<open>2^-1074\<close> of the subnormal range below \<open>2^-1022\<close>.
\<close>

definition ulp :: "rat \<Rightarrow> rat" where
  "ulp x = pow2 (max (exponent x) (- 1022) - 52)"

text \<open>The rationals a double holds: zero, and the multiples of their \<open>ulp\<close> below \<open>2^1024\<close>.\<close>

definition is_double :: "rat \<Rightarrow> bool" where
  "is_double x =
     (x = 0 \<or> (of_int \<lfloor>x / ulp x\<rfloor> = x / ulp x \<and> \<bar>x\<bar> < pow2 1024))"

definition round_half_even :: "rat \<Rightarrow> int" where
  "round_half_even q =
     (let f = \<lfloor>q\<rfloor>; d = q - of_int f
      in if d < 1 / 2 then f
         else if 1 / 2 < d then f + 1
         else if even f then f else f + 1)"

text \<open>
  Rounding of an exact result to a double, to nearest with ties to even. \<open>negative\<close> is the
  sign to give an exact zero. A result of magnitude \<open>2^1024\<close> or more after rounding is an
  infinity; a result that rounds to zero keeps its sign.
\<close>

definition round_double :: "bool \<Rightarrow> rat \<Rightarrow> number" where
  "round_double negative x =
     (if x = 0 then (if negative then NegZero else Finite 0)
      else
        (let y = of_int (round_half_even (x / ulp x)) * ulp x
         in if pow2 1024 \<le> \<bar>y\<bar> then (if x < 0 then NegInf else PosInf)
            else if y = 0 then (if x < 0 then NegZero else Finite 0)
            else Finite y))"

fun is_NaN :: "number \<Rightarrow> bool" where
  "is_NaN NaN = True"
| "is_NaN x = False"

fun is_infinite :: "number \<Rightarrow> bool" where
  "is_infinite PosInf = True"
| "is_infinite NegInf = True"
| "is_infinite x = False"

fun is_zero :: "number \<Rightarrow> bool" where
  "is_zero (Finite a) = (a = 0)"
| "is_zero NegZero = True"
| "is_zero x = False"

fun is_negative :: "number \<Rightarrow> bool" where
  "is_negative (Finite a) = (a < 0)"
| "is_negative NegZero = True"
| "is_negative NegInf = True"
| "is_negative x = False"

fun magnitude :: "number \<Rightarrow> rat" where
  "magnitude (Finite a) = a"
| "magnitude x = 0"

text \<open>The operator \<open>*\<close> on two numbers.\<close>

definition multiply :: "number \<Rightarrow> number \<Rightarrow> number" where
  "multiply x y =
     (if is_NaN x \<or> is_NaN y then NaN
      else if (is_infinite x \<and> is_zero y) \<or> (is_zero x \<and> is_infinite y) then NaN
      else if is_infinite x \<or> is_infinite y then
        (if is_negative x \<noteq> is_negative y then NegInf else PosInf)
      else round_double (is_negative x \<noteq> is_negative y) (magnitude x * magnitude y))"

text \<open>
  The operator \<open>-\<close> on two numbers. An exact difference of zero is \<open>+0\<close>, except for
  \<open>-0 - +0\<close>, which is \<open>-0\<close>.
\<close>

definition subtract :: "number \<Rightarrow> number \<Rightarrow> number" where
  "subtract x y =
     (if is_NaN x \<or> is_NaN y then NaN
      else if is_infinite x \<and> is_infinite y then
        (if is_negative x = is_negative y then NaN else x)
      else if is_infinite x then x
      else if is_infinite y then (if is_negative y then PosInf else NegInf)
      else if magnitude x - magnitude y = 0 then
        (if x = NegZero \<and> y = Finite 0 then NegZero else Finite 0)
      else round_double False (magnitude x - magnitude y))"

text \<open>\<open>x === y\<close> on numbers: \<open>NaN\<close> equals nothing, and the two zeros are equal.\<close>

definition strictly_equal :: "number \<Rightarrow> number \<Rightarrow> bool" where
  "strictly_equal x y =
     (\<not> is_NaN x \<and> \<not> is_NaN y \<and> (x = y \<or> (is_zero x \<and> is_zero y)))"

text \<open>A number that is neither an infinity nor \<open>NaN\<close>, and that a double holds.\<close>

fun is_finite :: "number \<Rightarrow> bool" where
  "is_finite (Finite a) = is_double a"
| "is_finite NegZero = True"
| "is_finite x = False"

subsection \<open>Values and the arithmetic operators\<close>

text \<open>
  The values of the language. A primitive is itself. An object is kept as what its
  conversion to a primitive (\<open>valueOf\<close>, \<open>toString\<close>) gives whenever an operator asks for
  it: a primitive, or an exception.
\<close>

datatype primitive =
    Undefined
  | Null
  | Boolean bool
  | Number number
  | String string
  | BigInt int
  | Symbol

datatype 'e js_value = Primitive primitive | Object "'e exn + primitive"

text \<open>An operand after conversion: a number or a BigInt.\<close>

datatype numeric = Num number | Big int

text \<open>
  The conversion of an operand. The numeric value of a string is the runtime's
  \<open>StringToNumber\<close>, which is a parameter here. A symbol has no numeric value.
\<close>

fun ToNumeric_primitive :: "(string \<Rightarrow> number) \<Rightarrow> primitive \<Rightarrow> 'e exn + numeric" where
  "ToNumeric_primitive StringToNumber Undefined = Inr (Num NaN)"
| "ToNumeric_primitive StringToNumber Null = Inr (Num (Finite 0))"
| "ToNumeric_primitive StringToNumber (Boolean b) = Inr (Num (Finite (if b then 1 else 0)))"
| "ToNumeric_primitive StringToNumber (Number n) = Inr (Num n)"
| "ToNumeric_primitive StringToNumber (String s) = Inr (Num (StringToNumber s))"
| "ToNumeric_primitive StringToNumber (BigInt n) = Inr (Big n)"
| "ToNumeric_primitive StringToNumber Symbol =
     Inl (TypeError ''Cannot convert a Symbol value to a number'')"

fun ToNumeric :: "(string \<Rightarrow> number) \<Rightarrow> 'e js_value \<Rightarrow> 'e exn + numeric" where
  "ToNumeric StringToNumber (Primitive p) = ToNumeric_primitive StringToNumber p"
| "ToNumeric StringToNumber (Object (Inl thrown)) = Inl thrown"
| "ToNumeric StringToNumber (Object (Inr p)) = ToNumeric_primitive StringToNumber p"

text \<open>
  A binary arithmetic operator: the left operand is converted, then the right one; two
  numbers or two BigInts are combined, and a number with a BigInt is a \<open>TypeError\<close>.
\<close>

definition arithmetic ::
  "(number \<Rightarrow> number \<Rightarrow> number) \<Rightarrow> (int \<Rightarrow> int \<Rightarrow> int) \<Rightarrow> (string \<Rightarrow> number) \<Rightarrow>
   'e js_value \<Rightarrow> 'e js_value \<Rightarrow> 'e exn + primitive" where
  "arithmetic on_numbers on_bigints StringToNumber lval rval =
     (case ToNumeric StringToNumber lval of
        Inl thrown \<Rightarrow> Inl thrown
      | Inr lnum \<Rightarrow>
          (case ToNumeric StringToNumber rval of
             Inl thrown \<Rightarrow> Inl thrown
           | Inr rnum \<Rightarrow>
               (case (lnum, rnum) of
                  (Num a, Num b) \<Rightarrow> Inr (Number (on_numbers a b))
                | (Big a, Big b) \<Rightarrow> Inr (BigInt (on_bigints a b))
                | (Num a, Big b) \<Rightarrow>
                    Inl (TypeError ''Cannot mix BigInt and other types, use explicit conversions'')
                | (Big a, Num b) \<Rightarrow>
                    Inl (TypeError ''Cannot mix BigInt and other types, use explicit conversions''))))"

definition operator_times :: "(string \<Rightarrow> number) \<Rightarrow> 'e js_value \<Rightarrow> 'e js_value \<Rightarrow> 'e exn + primitive" where
  "operator_times = arithmetic multiply (\<lambda>a b. a * b)"

definition operator_minus :: "(string \<Rightarrow> number) \<Rightarrow> 'e js_value \<Rightarrow> 'e js_value \<Rightarrow> 'e exn + primitive" where
  "operator_minus = arithmetic subtract (\<lambda>a b. a - b)"

subsection \<open>getDiscount\<close>

text \<open>\<open>a ?? b\<close> is \<open>b\<close> when \<open>a\<close> is \<open>undefined\<close> or \<open>null\<close>, and \<open>a\<close> otherwise.\<close>

fun nullish :: "'e js_value \<Rightarrow> bool" where
  "nullish (Primitive Undefined) = True"
| "nullish (Primitive Null) = True"
| "nullish v = False"

definition nullish_coalescing :: "'e js_value \<Rightarrow> 'e js_value \<Rightarrow> 'e js_value" where
  "nullish_coalescing a b = (if nullish a then b else a)"

text \<open>The literal \<open>0.1\<close>: the double nearest to one tenth.\<close>

definition literal_0_1 :: number where
  "literal_0_1 = round_double False (1 / 10)"

text \<open>
  The expression \<open>price - price * discount\<close>: the product is evaluated first, and an
  exception of either operator is the exception of the expression.
\<close>

definition price_minus_price_times ::
  "(string \<Rightarrow> number) \<Rightarrow> 'e js_value \<Rightarrow> 'e js_value \<Rightarrow> 'e exn + primitive" where
  "price_minus_price_times StringToNumber price discount =
     (case operator_times StringToNumber price discount of
        Inl thrown \<Rightarrow> Inl thrown
      | Inr product \<Rightarrow> operator_minus StringToNumber price (Primitive product))"

text \<open>\<open>getDiscount(price, discount)\<close>. A parameter left out of the call is \<open>undefined\<close>.\<close>

definition getDiscount ::
  "(string \<Rightarrow> number) \<Rightarrow> 'e js_value \<Rightarrow> 'e js_value \<Rightarrow> 'e exn + primitive" where
  "getDiscount StringToNumber price discount =
     (let discount = nullish_coalescing discount (Primitive (Number literal_0_1))
      in price_minus_price_times StringToNumber price discount)"

section \<open>The sign-up pages: AuthLayout\<close>

text \<open>
  What \<open>auth.api.getSession\<close> resolves to: \<open>null\<close> when there is no session, or a
  session object. An object is truthy and \<open>null\<close> is falsy.
\<close>

datatype 's session = NoSession | Session 's

fun truthy :: "'s session \<Rightarrow> bool" where
  "truthy NoSession = False"
| "truthy (Session s) = True"

text \<open>
  \<open>redirect\<close> of the framework never returns: it throws the framework's redirect error
  for the path it is given.
\<close>

datatype redirect_error = NEXT_REDIRECT string

definition redirect :: "string \<Rightarrow> redirect_error + unit" where
  "redirect path = Inl (NEXT_REDIRECT path)"

text \<open>The element \<open><div>{children}</div>\<close>.\<close>

datatype 'c jsx = Div 'c

definition AuthLayout :: "'s session \<Rightarrow> 'c \<Rightarrow> redirect_error + 'c jsx" where
  "AuthLayout session children =
     (case (if truthy session then redirect ''/dashboard'' else Inr ()) of
        Inl thrown \<Rightarrow> Inl thrown
      | Inr u \<Rightarrow> Inr (Div children))"

section \<open>Properties of myMap\<close>

subsection \<open>The loop of myMap\<close>

lemma myMap_loop_total:
  "myMap_loop (\<lambda>t x i a. Inr (g t x i a)) thisArgs this i result =
     Inr (result @ map (\<lambda>j. g thisArgs (this ! j) j this) [i..<length this])"
proof (induction "\<lambda>t x i a. (Inr (g t x i a) :: 'e exn + 'b)" thisArgs this i result
    rule: myMap_loop.induct)
  case (1 thisArgs this i result)
  show ?case
  proof (cases "i < length this")
    case True
    then show ?thesis
      using "1" by (subst myMap_loop.simps) (simp add: upt_conv_Cons)
  next
    case False
    then show ?thesis
      by (subst myMap_loop.simps) simp
  qed
qed

lemma builtin_map_loop_myMap_loop:
  "length result = i \<Longrightarrow> i \<le> length this \<Longrightarrow> length A = length this \<Longrightarrow>
   take i A = map Some result \<Longrightarrow>
   builtin_map_loop f thisArgs this (length this) i A =
     (case myMap_loop f thisArgs this i result of
        Inl e \<Rightarrow> Inl e
      | Inr ys \<Rightarrow> Inr (map Some ys))"
proof (induction f thisArgs this i result arbitrary: A rule: myMap_loop.induct)
  case (1 f thisArgs this i result)
  show ?case
  proof (cases "i < length this")
    case False
    with "1.prems" have "i = length this" by simp
    with "1.prems" have "A = map Some result" by simp
    with False show ?thesis
      by (subst builtin_map_loop.simps, subst myMap_loop.simps) simp
  next
    case True
    show ?thesis
    proof (cases "f thisArgs (this ! i) i this")
      case (Inl e)
      with True show ?thesis
        by (subst builtin_map_loop.simps, subst myMap_loop.simps) simp
    next
      case (Inr v)
      have tk: "take (i + 1) (A[i := Some v]) = map Some (result @ [v])"
        using True "1.prems" by (simp add: take_Suc_conv_app_nth)
      have "builtin_map_loop f thisArgs this (length this) (i + 1) (A[i := Some v]) =
          (case myMap_loop f thisArgs this (i + 1) (result @ [v]) of
             Inl e \<Rightarrow> Inl e
           | Inr ys \<Rightarrow> Inr (map Some ys))"
        using "1.IH" [OF True Inr _ _ _ tk] True "1.prems" by simp
      with True Inr show ?thesis
        by (subst builtin_map_loop.simps, subst myMap_loop.simps) simp
    qed
  qed
qed



lemma myMap_loop_Inr:
  "myMap_loop f thisArgs this i result = Inr ys \<Longrightarrow>
   list_all (\<lambda>j. \<not> isl (f thisArgs (this ! j) j this)) [i..<length this] \<and>
   length ys = length result + (length this - i)"
proof (induction f thisArgs this i result rule: myMap_loop.induct)
  case (1 f thisArgs this i result)
  show ?case
  proof (cases "i < length this")
    case False
    with "1.prems" show ?thesis
      by (subst (asm) myMap_loop.simps) auto
  next
    case True
    show ?thesis
    proof (cases "f thisArgs (this ! i) i this")
      case (Inl e)
      with True "1.prems" show ?thesis
        by (subst (asm) myMap_loop.simps) simp
    next
      case (Inr v)
      with True "1.prems" have "myMap_loop f thisArgs this (i + 1) (result @ [v]) = Inr ys"
        by (subst (asm) myMap_loop.simps) simp
      from "1.IH" [OF True Inr this] True Inr show ?thesis
        by (simp add: upt_conv_Cons)
    qed
  qed
qed

subsection \<open>myMap and the built-in map\<close>

lemma builtin_map_myMap_loop:
  "builtin_map h thisArgs this =
     (case myMap_loop h thisArgs this 0 [] of Inl e \<Rightarrow> Inl e | Inr ys \<Rightarrow> Inr (map Some ys))"
  unfolding builtin_map_def Let_def
  by (rule builtin_map_loop_myMap_loop) simp_all

text \<open>
  Claim C1. For every array without holes and every pure callback, \<open>myMap\<close> returns what
  the built-in \<open>map\<close> returns on the same array and callback: the same elements at the
  same indices (no index of the built-in's result is left a hole) and the same length,
  which is the length of the input. Where the callback throws, both stop with the
  callback's exception. For a callback that always returns, element \<open>i\<close> of the result
  is the callback's value on element \<open>i\<close>, the index \<open>i\<close> and the array.
\<close>

theorem myMap_eq_builtin_map:
  "(case myMap (Fn f) thisArgs this of
      Inl e \<Rightarrow> builtin_map f thisArgs this = Inl e
    | Inr ys \<Rightarrow> builtin_map f thisArgs this = Inr (map Some ys) \<and> length ys = length this) \<and>
   myMap (Fn (\<lambda>t x i a. Inr (g t x i a))) thisArgs this =
     Inr (map (\<lambda>i. g thisArgs (this ! i) i this) [0..<length this]) \<and>
   builtin_map (\<lambda>t x i a. Inr (g t x i a)) thisArgs this =
     Inr (map (\<lambda>i. Some (g thisArgs (this ! i) i this)) [0..<length this])"
proof -
  note rel = builtin_map_myMap_loop
  have tot: "myMap_loop (\<lambda>t x i a. Inr (g t x i a)) thisArgs this 0 [] =
      Inr (map (\<lambda>i. g thisArgs (this ! i) i this) [0..<length this])"
    by (simp add: myMap_loop_total)
  have first: "case myMap (Fn f) thisArgs this of
      Inl e \<Rightarrow> builtin_map f thisArgs this = Inl e
    | Inr ys \<Rightarrow> builtin_map f thisArgs this = Inr (map Some ys) \<and> length ys = length this"
  proof (cases "myMap_loop f thisArgs this 0 []")
    case (Inl e)
    then show ?thesis by (simp add: myMap_def rel)
  next
    case (Inr ys)
    from myMap_loop_Inr [OF Inr] have "length ys = length this" by simp
    with Inr show ?thesis by (simp add: myMap_def rel)
  qed
  have second: "myMap (Fn (\<lambda>t x i a. Inr (g t x i a))) thisArgs this =
      Inr (map (\<lambda>i. g thisArgs (this ! i) i this) [0..<length this])"
    by (simp add: myMap_def tot)
  have third: "builtin_map (\<lambda>t x i a. Inr (g t x i a)) thisArgs this =
      Inr (map (\<lambda>i. Some (g thisArgs (this ! i) i this)) [0..<length this])"
    by (simp add: rel tot)
  from first second third show ?thesis by blast
qed

subsection \<open>The exceptions of myMap\<close>








section \<open>Properties of the star-rating widget\<close>

subsection \<open>Class lists\<close>

lemma has_class_add:
  "has_class c (classList_add d e) = (c = d \<or> has_class c e)"
  by (auto simp: has_class_def classList_add_def)

lemma has_class_remove:
  "has_class c (classList_remove d e) = (c \<noteq> d \<and> has_class c e)"
  by (auto simp: has_class_def classList_remove_def)

lemma classList_add_idem:
  "classList_add c (classList_add c e) = classList_add c e"
  by (simp add: classList_add_def)

lemma classList_remove_idem:
  "classList_remove c (classList_remove c e) = classList_remove c e"
  by (simp add: classList_remove_def)

lemma listeners_add: "listeners (classList_add c e) = listeners e"
  by (simp add: classList_add_def)

lemma listeners_remove: "listeners (classList_remove c e) = listeners e"
  by (simp add: classList_remove_def)

subsection \<open>renderStars\<close>

lemma renderStars_loop_eq:
  "renderStars_loop totalStars i p =
     p\<lparr>starContainer :=
         starContainer p @ map (\<lambda>k. new_star (i + int k)) [0..<nat (totalStars - i)]\<rparr>"
proof (induction totalStars i p rule: renderStars_loop.induct)
  case (1 totalStars i p)
  show ?case
  proof (cases "i < totalStars")
    case False
    then show ?thesis
      by (subst renderStars_loop.simps) simp
  next
    case True
    then have n: "nat (totalStars - i) = Suc (nat (totalStars - (i + 1)))"
      by simp
    have "map (\<lambda>k. new_star (i + int k)) [0..<nat (totalStars - i)] =
        new_star i # map (\<lambda>k. new_star (i + 1 + int k)) [0..<nat (totalStars - (i + 1))]"
      unfolding n map_upt_Suc by (simp add: algebra_simps)
    with True "1.IH" [OF True] show ?thesis
      by (subst renderStars_loop.simps) simp
  qed
qed

lemma starContainer_renderStars:
  "starContainer (renderStars totalStars p) = map (\<lambda>k. new_star (int k)) [0..<nat totalStars]"
  by (simp add: renderStars_def renderStars_loop_eq)

lemma has_class_star_new_star: "has_class ''star'' (new_star i)"
  by (simp add: new_star_def createElement_def classList_add_def has_class_def)

lemma new_star_fields:
  "tagName (new_star i) = ''span''"
  "classList (new_star i) = [''star'']"
  "innerHTML (new_star i) = star_text"
  "listeners (new_star i) = Some i"
  by (simp_all add: new_star_def createElement_def classList_add_def)

subsection \<open>highlightStars\<close>

lemma highlight_forEach_listeners:
  "map listeners (highlight_forEach index r es) = map listeners es"
  by (induction es arbitrary: index) (simp_all add: listeners_add listeners_remove)

lemma highlight_forEach_star:
  "map (has_class ''star'') (highlight_forEach index r es) = map (has_class ''star'') es"
  by (induction es arbitrary: index) (simp_all add: has_class_add has_class_remove)

lemma highlight_forEach_filter_length:
  "length (filter (has_class ''star'') (highlight_forEach index r es)) =
     length (filter (has_class ''star'') es)"
  by (induction es arbitrary: index) (simp_all add: has_class_add has_class_remove)

lemma highlight_forEach_filled:
  "map (has_class ''filled'') (filter (has_class ''star'') (highlight_forEach index r es)) =
     map (\<lambda>k. index + int k < r) [0..<length (filter (has_class ''star'') es)]"
proof (induction es arbitrary: index)
  case Nil
  show ?case by simp
next
  case (Cons star rest)
  show ?case
  proof (cases "has_class ''star'' star")
    case False
    then show ?thesis using Cons.IH [of index] by simp
  next
    case True
    have "map (\<lambda>k. index + int k < r) [0..<Suc (length (filter (has_class ''star'') rest))] =
        (index < r) # map (\<lambda>k. index + 1 + int k < r) [0..<length (filter (has_class ''star'') rest)]"
      unfolding map_upt_Suc by (simp add: algebra_simps)
    with True Cons.IH [of "index + 1"] show ?thesis
      by (simp add: has_class_add has_class_remove)
  qed
qed

lemma highlight_forEach_idem:
  "highlight_forEach index r (highlight_forEach index r es) = highlight_forEach index r es"
  by (induction es arbitrary: index)
    (simp_all add: has_class_add has_class_remove classList_add_idem classList_remove_idem)

lemma map_less_replicate:
  "0 \<le> r \<Longrightarrow> r \<le> int n \<Longrightarrow>
   map (\<lambda>k. int k < r) [0..<n] = replicate (nat r) True @ replicate (n - nat r) False"
  by (rule nth_equalityI) (auto simp: nth_append)

subsection \<open>The pages the widget reaches\<close>

lemma highlightStars_fields:
  "rating (highlightStars r p) = rating p"
  "ratingValue (highlightStars r p) = ratingValue p"
  "network (highlightStars r p) = network p"
  "starContainer (highlightStars r p) = highlight_forEach 0 r (starContainer p)"
  by (simp_all add: highlightStars_def)

lemma click_listener_eq:
  "click_listener i p = p\<lparr>rating := i + 1, ratingValue := number_to_string (i + 1)\<rparr>"
  by (simp add: click_listener_def)

lemma rendered_highlightStars: "rendered p \<Longrightarrow> rendered (highlightStars r p)"
proof -
  assume "rendered p"
  then have l: "map listeners (starContainer p) = map (\<lambda>k. Some (int k)) [0..<nat TOTAL_STARS]"
    and s: "list_all (has_class ''star'') (starContainer p)"
    by (simp_all add: rendered_def)
  from s have "list_all (\<lambda>b. b) (map (has_class ''star'') (starContainer p))"
    by (simp add: list_all_iff)
  then have "list_all (\<lambda>b. b) (map (has_class ''star'') (highlight_forEach 0 r (starContainer p)))"
    by (simp only: highlight_forEach_star)
  then have "list_all (has_class ''star'') (highlight_forEach 0 r (starContainer p))"
    by (simp add: list_all_iff)
  with l show ?thesis
    by (simp add: rendered_def highlightStars_fields highlight_forEach_listeners)
qed

lemma rendered_script: "rendered (script html)"
  by (simp add: rendered_def script_def starContainer_renderStars new_star_fields
      has_class_star_new_star list_all_iff comp_def)

lemma rating_script: "rating (script html) = 0"
  by (simp add: script_def renderStars_def renderStars_loop_eq)

lemma network_script: "network (script html) = network html"
  by (simp add: script_def renderStars_def renderStars_loop_eq)

lemma listener_of_rendered:
  "rendered p \<Longrightarrow> listener_of k p = (if k < nat TOTAL_STARS then Some (int k) else None)"
proof -
  assume "rendered p"
  then have l: "map listeners (starContainer p) = map (\<lambda>k. Some (int k)) [0..<nat TOTAL_STARS]"
    by (simp add: rendered_def)
  from arg_cong [OF l, of length] have len: "length (starContainer p) = nat TOTAL_STARS"
    by simp
  show ?thesis
  proof (cases "k < nat TOTAL_STARS")
    case False
    with len show ?thesis by (simp add: listener_of_def)
  next
    case True
    with len have "listeners (starContainer p ! k) = map listeners (starContainer p) ! k"
      by simp
    also have "\<dots> = Some (int k)"
      using True unfolding l by simp
    finally show ?thesis
      using True len by (simp add: listener_of_def)
  qed
qed

lemma rendered_dispatch: "rendered p \<Longrightarrow> rendered (dispatch ev p)"
proof (cases ev)
  case (Mouseover k)
  assume "rendered p"
  with Mouseover show ?thesis
    by (simp add: mouseover_listener_def rendered_highlightStars split: option.splits)
next
  case (Mouseout k)
  assume "rendered p"
  with Mouseout show ?thesis
    by (simp add: mouseout_listener_def rendered_highlightStars split: option.splits)
next
  case (Click k)
  assume "rendered p"
  with Click show ?thesis
    by (simp add: click_listener_eq rendered_def split: option.splits)
qed

lemma rating_dispatch:
  "rendered p \<Longrightarrow> rating_in_range p \<Longrightarrow> rating_in_range (dispatch ev p)"
proof (cases ev)
  case (Mouseover k)
  assume "rendered p" "rating_in_range p"
  with Mouseover show ?thesis
    by (simp add: mouseover_listener_def rating_in_range_def highlightStars_fields
        split: option.splits)
next
  case (Mouseout k)
  assume "rendered p" "rating_in_range p"
  with Mouseout show ?thesis
    by (simp add: mouseout_listener_def rating_in_range_def highlightStars_fields
        split: option.splits)
next
  case (Click k)
  assume r: "rendered p" and "rating_in_range p"
  show ?thesis
  proof (cases "k < nat TOTAL_STARS")
    case True
    with Click r show ?thesis
      by (simp add: listener_of_rendered click_listener_eq rating_in_range_def)
  next
    case False
    with Click r \<open>rating_in_range p\<close> show ?thesis
      by (simp add: listener_of_rendered)
  qed
qed

lemma network_dispatch: "network (dispatch ev p) = network p"
  by (cases ev)
    (simp_all add: mouseover_listener_def mouseout_listener_def click_listener_eq
      highlightStars_fields split: option.splits)

lemma run_snoc: "run (events @ [ev]) p = dispatch ev (run events p)"
  by (simp add: run_def)

lemma reachable_invariant:
  "rendered (run events (script html)) \<and> rating_in_range (run events (script html)) \<and>
   network (run events (script html)) = network html"
proof (induction events rule: rev_induct)
  case Nil
  show ?case
    by (simp add: run_def rendered_script rating_script network_script rating_in_range_def
        TOTAL_STARS_def)
next
  case (snoc ev events)
  then show ?case
    by (simp add: run_snoc rendered_dispatch rating_dispatch network_dispatch)
qed

lemma rendered_querySelectorAll:
  "rendered p \<Longrightarrow> querySelectorAll_star p = starContainer p \<and>
     length (starContainer p) = nat TOTAL_STARS"
proof -
  assume "rendered p"
  then have l: "map listeners (starContainer p) = map (\<lambda>k. Some (int k)) [0..<nat TOTAL_STARS]"
    and s: "list_all (has_class ''star'') (starContainer p)"
    by (simp_all add: rendered_def)
  from arg_cong [OF l, of length] have "length (starContainer p) = nat TOTAL_STARS"
    by simp
  moreover from s have "querySelectorAll_star p = starContainer p"
    by (simp add: querySelectorAll_star_def list_all_iff)
  ultimately show ?thesis by simp
qed

subsection \<open>What renderStars renders\<close>

text \<open>
  Claim C5. For every non-negative integer \<open>totalStars\<close>, \<open>renderStars(totalStars)\<close> leaves
  in the container exactly \<open>totalStars\<close> elements, whatever the container held before:
  the stars for \<open>i = 0, ..., totalStars - 1\<close>, each a \<open>span\<close> of class \<open>star\<close> holding the
  star character. The loop itself appends them to the container it is given, so the
  earlier content is gone because the container is emptied first. The widget is set up
  with \<open>TOTAL_STARS = 5\<close> stars.
\<close>

theorem renderStars_renders_totalStars:
  "0 \<le> totalStars \<Longrightarrow>
   int (length (starContainer (renderStars totalStars p))) = totalStars \<and>
   starContainer (renderStars totalStars p) = map (\<lambda>k. new_star (int k)) [0..<nat totalStars] \<and>
   list_all (\<lambda>e. tagName e = ''span'' \<and> classList e = [''star''] \<and> innerHTML e = star_text)
     (starContainer (renderStars totalStars p)) \<and>
   starContainer (renderStars_loop totalStars 0 p) =
     starContainer p @ map (\<lambda>k. new_star (int k)) [0..<nat totalStars] \<and>
   TOTAL_STARS = 5 \<and>
   length (starContainer (script html)) = 5"
proof -
  assume "0 \<le> totalStars"
  then have "int (length (starContainer (renderStars totalStars p))) = totalStars"
    by (simp add: starContainer_renderStars)
  moreover have "list_all
      (\<lambda>e. tagName e = ''span'' \<and> classList e = [''star''] \<and> innerHTML e = star_text)
      (starContainer (renderStars totalStars p))"
    by (simp add: starContainer_renderStars list_all_iff new_star_fields)
  moreover have "starContainer (renderStars_loop totalStars 0 p) =
      starContainer p @ map (\<lambda>k. new_star (int k)) [0..<nat totalStars]"
    by (simp add: renderStars_loop_eq)
  moreover have "length (starContainer (script html)) = 5"
    by (simp add: script_def starContainer_renderStars TOTAL_STARS_def)
  ultimately show ?thesis
    by (simp add: starContainer_renderStars TOTAL_STARS_def)
qed

theorem renderStars_renders_totalStars_witness:
  "(0 :: int) \<le> 3 \<and>
   int (length (starContainer (renderStars 3
     \<lparr>starContainer = [createElement ''div'', createElement ''p''], ratingValue = ''0'',
      rating = 0, network = []\<rparr>))) = 3"
  using renderStars_renders_totalStars [of 3
    "\<lparr>starContainer = [createElement ''div'', createElement ''p''], ratingValue = ''0'',
      rating = 0, network = []\<rparr>"]
  by simp

subsection \<open>A click on a star\<close>

text \<open>
  Claim C6. On every page the widget reaches (the script, then any events), a click on
  the star at position \<open>i\<close>, for \<open>i\<close> below \<open>TOTAL_STARS\<close>, sets \<open>rating\<close> to \<open>i + 1\<close> and
  the text of \<open>#rating-value\<close> to the decimal string of \<open>i + 1\<close>. Nothing else changes: the
  stars stay as they are and no request is sent to a backend, by this click or by any
  event before it.
\<close>

theorem click_sets_rating:
  "int i < TOTAL_STARS \<Longrightarrow>
   rating (dispatch (Click i) (run events (script html))) = int i + 1 \<and>
   ratingValue (dispatch (Click i) (run events (script html))) = number_to_string (int i + 1) \<and>
   dispatch (Click i) (run events (script html)) =
     (run events (script html))
       \<lparr>rating := int i + 1, ratingValue := number_to_string (int i + 1)\<rparr> \<and>
   network (dispatch (Click i) (run events (script html))) = network html"
proof -
  assume i: "int i < TOTAL_STARS"
  let ?p = "run events (script html)"
  from reachable_invariant [of events html] have r: "rendered ?p"
    and n: "network ?p = network html"
    by simp_all
  from i have "i < nat TOTAL_STARS" by simp
  with r have "listener_of i ?p = Some (int i)"
    by (simp add: listener_of_rendered)
  then have "dispatch (Click i) ?p =
      ?p\<lparr>rating := int i + 1, ratingValue := number_to_string (int i + 1)\<rparr>"
    by (simp add: click_listener_eq)
  with n show ?thesis by simp
qed

theorem click_sets_rating_witness:
  "int 2 < TOTAL_STARS \<and>
   rating (dispatch (Click 2) (run [Mouseover 4, Click 0, Mouseout 4]
     (script \<lparr>starContainer = [], ratingValue = ''0'', rating = 0, network = []\<rparr>))) = 3 \<and>
   ratingValue (dispatch (Click 2) (run [Mouseover 4, Click 0, Mouseout 4]
     (script \<lparr>starContainer = [], ratingValue = ''0'', rating = 0, network = []\<rparr>))) = ''3''"
proof -
  have a: "int 2 < TOTAL_STARS"
    by (simp add: TOTAL_STARS_def)
  have b: "number_to_string (int 2 + 1) = ''3''"
    by code_simp
  from click_sets_rating [OF a, of "[Mouseover 4, Click 0, Mouseout 4]"
      "\<lparr>starContainer = [], ratingValue = ''0'', rating = 0, network = []\<rparr>"] a b
  show ?thesis by simp
qed

subsection \<open>The filled stars\<close>

text \<open>
  Claim C7. For every \<open>r\<close> from \<open>0\<close> to the number of star elements, after
  \<open>highlightStars(r)\<close> the first \<open>r\<close> star elements have the class \<open>filled\<close> and the others
  do not, whichever stars were filled before. So a second call with the same \<open>r\<close> changes
  nothing, and on every page the widget reaches the \<open>mouseout\<close> listener of a star is
  \<open>highlightStars(rating)\<close> and leaves exactly the first \<open>rating\<close> stars filled.
\<close>

theorem highlightStars_fills_first:
  "0 \<le> r \<Longrightarrow> r \<le> int (length (querySelectorAll_star p)) \<Longrightarrow>
   map (has_class ''filled'') (querySelectorAll_star (highlightStars r p)) =
     replicate (nat r) True @ replicate (length (querySelectorAll_star p) - nat r) False \<and>
   length (querySelectorAll_star (highlightStars r p)) = length (querySelectorAll_star p) \<and>
   highlightStars r (highlightStars r p) = highlightStars r p \<and>
   (k < nat TOTAL_STARS \<longrightarrow>
      dispatch (Mouseout k) (run events (script html)) =
        highlightStars (rating (run events (script html))) (run events (script html)) \<and>
      map (has_class ''filled'') (starContainer (dispatch (Mouseout k) (run events (script html)))) =
        replicate (nat (rating (run events (script html)))) True @
        replicate (nat TOTAL_STARS - nat (rating (run events (script html)))) False)"
proof -
  have fill: "map (has_class ''filled'') (querySelectorAll_star (highlightStars s q)) =
      replicate (nat s) True @ replicate (length (querySelectorAll_star q) - nat s) False"
    if "0 \<le> s" "s \<le> int (length (querySelectorAll_star q))" for s q
  proof -
    have "map (has_class ''filled'') (querySelectorAll_star (highlightStars s q)) =
        map (\<lambda>k. int k < s) [0..<length (querySelectorAll_star q)]"
      by (simp add: querySelectorAll_star_def highlightStars_fields highlight_forEach_filled)
    with that show ?thesis
      by (simp add: map_less_replicate)
  qed
  have len: "length (querySelectorAll_star (highlightStars r p)) = length (querySelectorAll_star p)"
    by (simp add: querySelectorAll_star_def highlightStars_fields highlight_forEach_filter_length)
  have idem: "highlightStars r (highlightStars r p) = highlightStars r p"
    by (simp add: highlightStars_def highlight_forEach_idem)
  let ?q = "run events (script html)"
  have out: "dispatch (Mouseout k) ?q = highlightStars (rating ?q) ?q \<and>
      map (has_class ''filled'') (starContainer (dispatch (Mouseout k) ?q)) =
        replicate (nat (rating ?q)) True @ replicate (nat TOTAL_STARS - nat (rating ?q)) False"
    if k: "k < nat TOTAL_STARS"
  proof -
    from reachable_invariant [of events html] have r: "rendered ?q"
      and g: "rating_in_range ?q"
      by simp_all
    from r k have d: "dispatch (Mouseout k) ?q = highlightStars (rating ?q) ?q"
      by (simp add: listener_of_rendered mouseout_listener_def)
    from rendered_querySelectorAll [OF r] have q: "querySelectorAll_star ?q = starContainer ?q"
      and l: "length (starContainer ?q) = nat TOTAL_STARS"
      by simp_all
    from rendered_querySelectorAll [OF rendered_highlightStars [OF r, of "rating ?q"]]
    have q': "querySelectorAll_star (highlightStars (rating ?q) ?q) =
        starContainer (highlightStars (rating ?q) ?q)"
      by simp
    from g l q have "0 \<le> rating ?q" "rating ?q \<le> int (length (querySelectorAll_star ?q))"
      by (simp_all add: rating_in_range_def TOTAL_STARS_def)
    from fill [OF this] d q q' l show ?thesis by simp
  qed
  assume "0 \<le> r" "r \<le> int (length (querySelectorAll_star p))"
  from fill [OF this] len idem out show ?thesis by blast
qed

theorem highlightStars_fills_first_witness:
  "(0 :: int) \<le> 2 \<and>
   2 \<le> int (length (querySelectorAll_star (highlightStars 3 (script
     \<lparr>starContainer = [], ratingValue = ''0'', rating = 0, network = []\<rparr>)))) \<and>
   1 < nat TOTAL_STARS \<and>
   map (has_class ''filled'') (querySelectorAll_star (highlightStars 2 (highlightStars 3 (script
     \<lparr>starContainer = [], ratingValue = ''0'', rating = 0, network = []\<rparr>)))) =
     [True, True, False, False, False] \<and>
   map (has_class ''filled'') (starContainer (dispatch (Mouseout 1) (run [Mouseover 4, Click 2]
     (script \<lparr>starContainer = [], ratingValue = ''0'', rating = 0, network = []\<rparr>)))) =
     [True, True, True, False, False]"
proof -
  let ?html = "\<lparr>starContainer = [], ratingValue = ''0'', rating = 0, network = []\<rparr>"
  let ?p = "highlightStars 3 (script ?html)"
  have n: "length (querySelectorAll_star ?p) = 5"
    by (simp add: querySelectorAll_star_def highlightStars_fields highlight_forEach_filter_length
        script_def starContainer_renderStars TOTAL_STARS_def has_class_star_new_star
        filter_map comp_def)
  have a: "(0 :: int) \<le> 2" by simp
  have b: "2 \<le> int (length (querySelectorAll_star ?p))"
    by (simp add: n)
  have c: "1 < nat TOTAL_STARS"
    by (simp add: TOTAL_STARS_def)
  have g: "rating (run [Mouseover 4, Click 2] (script ?html)) = 3"
    using click_listener_eq [of 2 "dispatch (Mouseover 4) (script ?html)"]
      listener_of_rendered [OF rendered_dispatch [OF rendered_script, of "Mouseover 4" ?html], of 2]
    by (simp add: run_def TOTAL_STARS_def)
  have r: "replicate (nat 2) True @ replicate (5 - nat 2) False = [True, True, False, False, False]"
    "replicate (nat 3) True @ replicate (nat 5 - nat 3) False = [True, True, True, False, False]"
    by (simp_all add: numeral_eq_Suc)
  note th = highlightStars_fills_first [OF a b, of 1 "[Mouseover 4, Click 2]" ?html]
  from th have "map (has_class ''filled'') (querySelectorAll_star (highlightStars 2 ?p)) =
      replicate (nat 2) True @ replicate (length (querySelectorAll_star ?p) - nat 2) False"
    by (rule conjunct1)
  then have first: "map (has_class ''filled'') (querySelectorAll_star (highlightStars 2 ?p)) =
      [True, True, False, False, False]"
    by (simp only: n r)
  from th c have "map (has_class ''filled'')
        (starContainer (dispatch (Mouseout 1) (run [Mouseover 4, Click 2] (script ?html)))) =
      replicate (nat (rating (run [Mouseover 4, Click 2] (script ?html)))) True @
      replicate (nat TOTAL_STARS - nat (rating (run [Mouseover 4, Click 2] (script ?html)))) False"
    by blast
  then have second: "map (has_class ''filled'')
        (starContainer (dispatch (Mouseout 1) (run [Mouseover 4, Click 2] (script ?html)))) =
      [True, True, True, False, False]"
    by (simp only: g r TOTAL_STARS_def)
  from a b c first second show ?thesis by blast
qed

subsection \<open>The range of the rating\<close>

text \<open>
  Claim C8. The widget keeps one integer, \<open>rating\<close>. It is \<open>0\<close> when the script has run,
  and after any events on the widget it is an integer from \<open>0\<close> to \<open>TOTAL_STARS\<close>.
  \<open>mouseover\<close> and \<open>mouseout\<close> leave it as it is on every page; only a click writes it, and
  a click on the star at position \<open>k\<close> writes \<open>k + 1\<close>, which is at most \<open>TOTAL_STARS\<close>
  because the positions with a listener are those below \<open>TOTAL_STARS\<close>.
\<close>

theorem rating_invariant:
  "rating (script html) = 0 \<and>
   0 \<le> rating (run events (script html)) \<and>
   rating (run events (script html)) \<le> TOTAL_STARS \<and>
   rating (dispatch (Mouseover k) p) = rating p \<and>
   rating (dispatch (Mouseout k) p) = rating p \<and>
   rating (dispatch (Click k) (run events (script html))) =
     (if k < nat TOTAL_STARS then int k + 1 else rating (run events (script html)))"
proof -
  let ?q = "run events (script html)"
  from reachable_invariant [of events html] have r: "rendered ?q"
    and g: "rating_in_range ?q"
    by simp_all
  have over: "rating (dispatch (Mouseover k) p) = rating p"
    by (simp add: mouseover_listener_def highlightStars_fields split: option.splits)
  have out: "rating (dispatch (Mouseout k) p) = rating p"
    by (simp add: mouseout_listener_def highlightStars_fields split: option.splits)
  have click: "rating (dispatch (Click k) ?q) = (if k < nat TOTAL_STARS then int k + 1 else rating ?q)"
    using r by (simp add: listener_of_rendered click_listener_eq)
  from g over out click show ?thesis
    by (simp add: rating_script rating_in_range_def)
qed

section \<open>Properties of the DI example\<close>

lemma FileController_upload_eq:
  "FileController_upload \<lparr>uploader = u\<rparr> w =
     w\<lparr>console := console w @ fst (upload u ''sample-file.mp4''),
       unawaited := unawaited w @ [snd (upload u ''sample-file.mp4'')],
       res := (res w)\<lparr>body := Some [(''message'', ''File uploaded successfully!'')]\<rparr>\<rparr>"
  by (simp add: FileController_upload_def res_json_def split: prod.splits)

lemma FileController_upload_awaited_eq:
  "FileController_upload_awaited \<lparr>uploader = u\<rparr> w =
     (case snd (upload u ''sample-file.mp4'') of
        Fulfilled v \<Rightarrow>
          w\<lparr>console := console w @ fst (upload u ''sample-file.mp4''),
            res := (res w)\<lparr>body := Some [(''message'', ''File uploaded successfully!'')]\<rparr>\<rparr>
      | Rejected reason \<Rightarrow> w\<lparr>console := console w @ fst (upload u ''sample-file.mp4'')\<rparr>
      | Pending \<Rightarrow> w\<lparr>console := console w @ fst (upload u ''sample-file.mp4'')\<rparr>)"
  by (simp add: FileController_upload_awaited_def res_json_def split: prod.splits promise.splits)

lemma file_upload_route_s3:
  "file_upload_route (QString ''s3'') w =
     FileController_upload \<lparr>uploader = S3Uploader ''my-s3-bucket''\<rparr> w"
  by (simp add: file_upload_route_def)

lemma file_upload_route_cloudinary:
  "file_upload_route (QString ''cloudinary'') w =
     FileController_upload \<lparr>uploader = ClUploader ''my-cloudinary-bucket''\<rparr> w"
  by (simp add: file_upload_route_def)

subsection \<open>The route\<close>

text \<open>
  Claim C3. On a request to \<open>/file-upload\<close>: when the query parameter \<open>uploader\<close> is the
  string \<open>s3\<close>, the handler is the upload of a \<open>FileController\<close> built on a new
  \<open>S3Uploader("my-s3-bucket")\<close>, whose \<open>upload\<close> is called on \<open>sample-file.mp4\<close>; when it
  is \<open>cloudinary\<close>, the same on a new \<open>ClUploader("my-cloudinary-bucket")\<close>. For every
  other value, the absent one among them, the response has status 400 and the message
  \<open>Invalid uploader specified\<close>, and nothing else happens: no uploader writes to the
  console and no upload promise is created.
\<close>

theorem file_upload_route_dispatch:
  "file_upload_route (QString ''s3'') w =
     FileController_upload \<lparr>uploader = S3Uploader ''my-s3-bucket''\<rparr> w \<and>
   console (file_upload_route (QString ''s3'') w) =
     console w @ [''Uploading sample-file.mp4 to S3 in bucket my-s3-bucket...''] \<and>
   body (res (file_upload_route (QString ''s3'') w)) =
     Some [(''message'', ''File uploaded successfully!'')] \<and>
   file_upload_route (QString ''cloudinary'') w =
     FileController_upload \<lparr>uploader = ClUploader ''my-cloudinary-bucket''\<rparr> w \<and>
   console (file_upload_route (QString ''cloudinary'') w) =
     console w @ [''Uploading sample-file.mp4 to Cloudinary in bucket my-cloudinary-bucket...''] \<and>
   body (res (file_upload_route (QString ''cloudinary'') w)) =
     Some [(''message'', ''File uploaded successfully!'')] \<and>
   (uploaderStr \<noteq> QString ''s3'' \<and> uploaderStr \<noteq> QString ''cloudinary'' \<longrightarrow>
      statusCode (res (file_upload_route uploaderStr w)) = 400 \<and>
      body (res (file_upload_route uploaderStr w)) =
        Some [(''message'', ''Invalid uploader specified'')] \<and>
      console (file_upload_route uploaderStr w) = console w \<and>
      unawaited (file_upload_route uploaderStr w) = unawaited w)"
proof -
  note s3 = file_upload_route_s3 [of w]
  note cl = file_upload_route_cloudinary [of w]
  have s3_console: "console (file_upload_route (QString ''s3'') w) =
      console w @ [''Uploading sample-file.mp4 to S3 in bucket my-s3-bucket...'']"
    unfolding s3 FileController_upload_eq by (simp add: S3Uploader_def)
  have cl_console: "console (file_upload_route (QString ''cloudinary'') w) =
      console w @ [''Uploading sample-file.mp4 to Cloudinary in bucket my-cloudinary-bucket...'']"
    unfolding cl FileController_upload_eq by (simp add: ClUploader_def)
  have s3_body: "body (res (file_upload_route (QString ''s3'') w)) =
      Some [(''message'', ''File uploaded successfully!'')]"
    unfolding s3 FileController_upload_eq by simp
  have cl_body: "body (res (file_upload_route (QString ''cloudinary'') w)) =
      Some [(''message'', ''File uploaded successfully!'')]"
    unfolding cl FileController_upload_eq by simp
  have other: "statusCode (res (file_upload_route uploaderStr w)) = 400 \<and>
      body (res (file_upload_route uploaderStr w)) =
        Some [(''message'', ''Invalid uploader specified'')] \<and>
      console (file_upload_route uploaderStr w) = console w \<and>
      unawaited (file_upload_route uploaderStr w) = unawaited w"
    if "uploaderStr \<noteq> QString ''s3''" "uploaderStr \<noteq> QString ''cloudinary''"
    using that by (simp add: file_upload_route_def res_json_def res_status_def)
  from s3 cl s3_console cl_console s3_body cl_body other show ?thesis
    by blast
qed

theorem file_upload_route_dispatch_witness:
  "QUndefined \<noteq> QString ''s3'' \<and> QUndefined \<noteq> QString ''cloudinary'' \<and>
   statusCode (res (file_upload_route QUndefined fresh)) = 400 \<and>
   body (res (file_upload_route QUndefined fresh)) =
     Some [(''message'', ''Invalid uploader specified'')] \<and>
   console (file_upload_route QUndefined fresh) = [] \<and>
   unawaited (file_upload_route QUndefined fresh) = []"
proof -
  have a: "QUndefined \<noteq> QString ''s3''" "QUndefined \<noteq> QString ''cloudinary''"
    by simp_all
  have f: "console fresh = []" "unawaited fresh = []"
    by (simp_all add: fresh_def)
  from file_upload_route_dispatch [of fresh QUndefined] a
  have "statusCode (res (file_upload_route QUndefined fresh)) = 400 \<and>
      body (res (file_upload_route QUndefined fresh)) =
        Some [(''message'', ''Invalid uploader specified'')] \<and>
      console (file_upload_route QUndefined fresh) = console fresh \<and>
      unawaited (file_upload_route QUndefined fresh) = unawaited fresh"
    by blast
  with a f show ?thesis by simp
qed

subsection \<open>The promise that is not awaited\<close>

text \<open>
  Claim C4. \<open>FileController.upload\<close> calls \<open>this.uploader.upload("sample-file.mp4")\<close> and
  does not wait for the promise it gets: for every uploader, whatever the state of that
  promise (pending and rejected included), the success response is sent, and the promise
  is left with nothing waiting for it. A request the route serves with an uploader leaves
  exactly one such promise, and a refused request none. The version the document gives
  as the fix, with \<open>await\<close>, leaves none and sends the success response only when the
  promise is fulfilled.
\<close>

theorem FileController_upload_not_awaited:
  "body (res (FileController_upload \<lparr>uploader = u\<rparr> w)) =
     Some [(''message'', ''File uploaded successfully!'')] \<and>
   unawaited (FileController_upload \<lparr>uploader = u\<rparr> w) =
     unawaited w @ [snd (upload u ''sample-file.mp4'')] \<and>
   body (res (FileController_upload \<lparr>uploader = \<lparr>upload = (\<lambda>filename. (logged, Pending))\<rparr>\<rparr> w)) =
     Some [(''message'', ''File uploaded successfully!'')] \<and>
   body (res (FileController_upload
       \<lparr>uploader = \<lparr>upload = (\<lambda>filename. (logged, Rejected reason))\<rparr>\<rparr> w)) =
     Some [(''message'', ''File uploaded successfully!'')] \<and>
   length (unawaited (file_upload_route (QString ''s3'') fresh)) = 1 \<and>
   length (unawaited (file_upload_route (QString ''cloudinary'') fresh)) = 1 \<and>
   unawaited (FileController_upload_awaited \<lparr>uploader = u\<rparr> w) = unawaited w \<and>
   body (res (FileController_upload_awaited \<lparr>uploader = u\<rparr> w)) =
     (case snd (upload u ''sample-file.mp4'') of
        Fulfilled v \<Rightarrow> Some [(''message'', ''File uploaded successfully!'')]
      | Rejected r \<Rightarrow> body (res w)
      | Pending \<Rightarrow> body (res w))"
proof -
  have sent: "body (res (FileController_upload \<lparr>uploader = v\<rparr> w)) =
      Some [(''message'', ''File uploaded successfully!'')]" for v
    by (simp add: FileController_upload_eq)
  have left: "unawaited (FileController_upload \<lparr>uploader = u\<rparr> w) =
      unawaited w @ [snd (upload u ''sample-file.mp4'')]"
    by (simp add: FileController_upload_eq)
  have s3: "length (unawaited (file_upload_route (QString ''s3'') fresh)) = 1"
    by (simp add: file_upload_route_s3 file_upload_route_cloudinary FileController_upload_eq
        fresh_def)
  have cl: "length (unawaited (file_upload_route (QString ''cloudinary'') fresh)) = 1"
    by (simp add: file_upload_route_s3 file_upload_route_cloudinary FileController_upload_eq
        fresh_def)
  have none: "unawaited (FileController_upload_awaited \<lparr>uploader = u\<rparr> w) = unawaited w"
    by (simp add: FileController_upload_awaited_eq split: promise.splits)
  have waits: "body (res (FileController_upload_awaited \<lparr>uploader = u\<rparr> w)) =
      (case snd (upload u ''sample-file.mp4'') of
         Fulfilled v \<Rightarrow> Some [(''message'', ''File uploaded successfully!'')]
       | Rejected r \<Rightarrow> body (res w)
       | Pending \<Rightarrow> body (res w))"
    by (simp add: FileController_upload_awaited_eq split: promise.splits)
  from sent left s3 cl none waits show ?thesis
    by blast
qed

section \<open>Properties of getDiscount\<close>

subsection \<open>Rounding\<close>

lemma pow2_pos: "0 < pow2 e"
  by (simp add: pow2_def)

lemma ulp_pos: "0 < ulp x"
  by (simp add: ulp_def pow2_pos)

lemma round_half_even_of_int: "round_half_even (of_int n) = n"
  by (simp add: round_half_even_def)

lemma round_double_is_double:
  "is_double x \<Longrightarrow> x \<noteq> 0 \<Longrightarrow> round_double negative x = Finite x"
proof -
  assume d: "is_double x" and nz: "x \<noteq> 0"
  from d nz have int: "of_int \<lfloor>x / ulp x\<rfloor> = x / ulp x" and small: "\<bar>x\<bar> < pow2 1024"
    by (simp_all add: is_double_def)
  have "round_half_even (x / ulp x) = \<lfloor>x / ulp x\<rfloor>"
    using round_half_even_of_int [of "\<lfloor>x / ulp x\<rfloor>"] by (simp only: int)
  then have "of_int (round_half_even (x / ulp x)) * ulp x = x"
    using ulp_pos [of x] by (simp add: int)
  with nz small show ?thesis
    by (simp add: round_double_def Let_def)
qed

text \<open>Evaluation of the arithmetic on numerals.\<close>

lemma floor_rat_numeral: "\<lfloor>numeral a / numeral b :: rat\<rfloor> = numeral a div numeral b"
  using floor_divide_of_int_eq [of "numeral a" "numeral b", where ?'a = rat] by simp

lemma ceiling_rat_numeral:
  "\<lceil>numeral a / numeral b :: rat\<rceil> = - (- numeral a div numeral b)"
  using floor_divide_of_int_eq [of "- numeral a" "numeral b", where ?'a = rat]
  by (simp add: ceiling_def)

lemmas double_arithmetic =
  round_double_def ulp_def exponent_def bit_length.simps pow2_def round_half_even_def Let_def
  multiply_def subtract_def is_double_def floor_rat_numeral ceiling_rat_numeral

subsection \<open>A discount of zero\<close>

lemma multiply_zero:
  "multiply (Finite p) (Finite 0) = (if p < 0 then NegZero else Finite 0)"
  by (simp add: multiply_def round_double_def)

lemma getDiscount_number:
  "getDiscount S (Primitive (Number x)) (Primitive (Number d)) =
     Inr (Number (subtract x (multiply x d)))"
  by (simp add: getDiscount_def price_minus_price_times_def nullish_coalescing_def
      operator_times_def operator_minus_def arithmetic_def)

lemma subtract_multiply_zero_double:
  "is_double p \<Longrightarrow> subtract (Finite p) (multiply (Finite p) (Finite 0)) = Finite p"
proof (cases "p = 0")
  case True
  then show ?thesis
    by (simp add: multiply_zero subtract_def)
next
  case False
  assume "is_double p"
  from round_double_is_double [OF this False] have "round_double False p = Finite p" .
  with False show ?thesis
    by (simp add: multiply_zero subtract_def)
qed

lemma subtract_multiply_zero_finite:
  "is_finite x \<Longrightarrow> strictly_equal (subtract x (multiply x (Finite 0))) x"
proof (cases x)
  case (Finite p)
  assume "is_finite x"
  with Finite have "is_double p" by simp
  with Finite show ?thesis
    by (simp add: subtract_multiply_zero_double strictly_equal_def)
next
  case NegZero
  then show ?thesis
    by (simp add: multiply_def subtract_def round_double_def strictly_equal_def)
qed simp_all

subsection \<open>Examples of the arithmetic\<close>

lemma literal_0_1_eq: "literal_0_1 = Finite (3602879701896397 / 36028797018963968)"
  by (simp add: literal_0_1_def double_arithmetic)

lemma example_100:
  "subtract (Finite 100) (multiply (Finite 100) (Finite (3602879701896397 / 36028797018963968))) =
     Finite 90"
  by (simp add: double_arithmetic)

lemma example_1_1:
  "subtract (Finite (2476979795053773 / 2251799813685248))
      (multiply (Finite (2476979795053773 / 2251799813685248)) (Finite (3602879701896397 / 36028797018963968))) =
     Finite (8917127262193583 / 9007199254740992)"
  by (simp add: double_arithmetic)

lemma example_overflow:
  "subtract (Finite (2 ^ 1023)) (multiply (Finite (2 ^ 1023)) (Finite (- 2))) = PosInf"
  by (simp add: double_arithmetic)

subsection \<open>The default and the discount of zero\<close>

text \<open>
  Claim C9 does not hold as it is written: \<open>getDiscount(p, 0) = p\<close> fails for
  \<open>p = Infinity\<close>. The product \<open>Infinity * 0\<close> is \<open>NaN\<close>, and so is the result.
\<close>

theorem getDiscount_Infinity_counterexample:
  "(getDiscount (\<lambda>s. NaN) (Primitive (Number PosInf)) (Primitive (Number (Finite 0)))
      :: unit exn + primitive) = Inr (Number NaN) \<and>
   (getDiscount (\<lambda>s. NaN) (Primitive (Number PosInf)) (Primitive (Number (Finite 0)))
      :: unit exn + primitive) \<noteq> Inr (Number PosInf) \<and>
   \<not> strictly_equal NaN PosInf"
  by (simp add: getDiscount_number multiply_def subtract_def strictly_equal_def)

text \<open>
  Claim C9, amended. The default \<open>0.1\<close> is applied exactly when \<open>discount\<close> is \<open>undefined\<close>
  or \<open>null\<close>: then the result is \<open>price - price * 0.1\<close>, and for every price and every
  other discount \<open>d\<close>, whatever its type (\<open>0\<close>, \<open>false\<close> and the empty string included),
  it is \<open>price - price * d\<close> as the language evaluates it. In particular
  \<open>getDiscount(p, 0) = p\<close> for every finite number \<open>p\<close>, while for \<open>p\<close> one of \<open>Infinity\<close>,
  \<open>-Infinity\<close> and \<open>NaN\<close> the result is \<open>NaN\<close>. The arithmetic is that of doubles:
  \<open>getDiscount(100)\<close> is \<open>90\<close>, \<open>getDiscount(1.1)\<close> is \<open>0.9900000000000001\<close>, and
  \<open>getDiscount(2^1023, -2)\<close> is \<open>Infinity\<close>.
\<close>

theorem getDiscount_nullish_default:
  "getDiscount S price (Primitive Undefined) =
     price_minus_price_times S price (Primitive (Number literal_0_1)) \<and>
   getDiscount S price (Primitive Null) =
     price_minus_price_times S price (Primitive (Number literal_0_1)) \<and>
   (\<not> nullish d \<longrightarrow> getDiscount S price d = price_minus_price_times S price d) \<and>
   getDiscount S price (Primitive (Number (Finite 0))) =
     price_minus_price_times S price (Primitive (Number (Finite 0))) \<and>
   getDiscount S price (Primitive (Boolean False)) =
     price_minus_price_times S price (Primitive (Boolean False)) \<and>
   getDiscount S price (Primitive (String [])) =
     price_minus_price_times S price (Primitive (String [])) \<and>
   (is_double p \<longrightarrow>
      getDiscount S (Primitive (Number (Finite p))) (Primitive (Number (Finite 0))) =
        Inr (Number (Finite p))) \<and>
   (is_finite x \<longrightarrow>
      (\<exists>r. getDiscount S (Primitive (Number x)) (Primitive (Number (Finite 0))) =
              Inr (Number r) \<and> strictly_equal r x)) \<and>
   getDiscount S (Primitive (Number PosInf)) (Primitive (Number (Finite 0))) = Inr (Number NaN) \<and>
   getDiscount S (Primitive (Number NegInf)) (Primitive (Number (Finite 0))) = Inr (Number NaN) \<and>
   getDiscount S (Primitive (Number NaN)) (Primitive (Number (Finite 0))) = Inr (Number NaN) \<and>
   getDiscount S (Primitive (Number (Finite 100))) (Primitive Undefined) =
     Inr (Number (Finite 90)) \<and>
   getDiscount S (Primitive (Number (Finite (2476979795053773 / 2251799813685248)))) (Primitive Undefined) =
     Inr (Number (Finite (8917127262193583 / 9007199254740992))) \<and>
   getDiscount S (Primitive (Number (Finite (2 ^ 1023)))) (Primitive (Number (Finite (- 2)))) =
     Inr (Number PosInf)"
proof -
  have default: "getDiscount S price (Primitive Undefined) =
      price_minus_price_times S price (Primitive (Number literal_0_1))"
    "getDiscount S price (Primitive Null) =
      price_minus_price_times S price (Primitive (Number literal_0_1))"
    by (simp_all add: getDiscount_def nullish_coalescing_def)
  have other: "\<not> nullish v \<longrightarrow> getDiscount S price v = price_minus_price_times S price v" for v
    by (simp add: getDiscount_def nullish_coalescing_def)
  have others:
    "getDiscount S price (Primitive (Number (Finite 0))) =
      price_minus_price_times S price (Primitive (Number (Finite 0)))"
    "getDiscount S price (Primitive (Boolean False)) =
      price_minus_price_times S price (Primitive (Boolean False))"
    "getDiscount S price (Primitive (String [])) =
      price_minus_price_times S price (Primitive (String []))"
    by (simp_all add: getDiscount_def nullish_coalescing_def)
  have double: "is_double p \<longrightarrow>
      getDiscount S (Primitive (Number (Finite p))) (Primitive (Number (Finite 0))) =
        Inr (Number (Finite p))"
    by (simp add: getDiscount_number subtract_multiply_zero_double)
  have finite: "is_finite x \<longrightarrow>
      (\<exists>r. getDiscount S (Primitive (Number x)) (Primitive (Number (Finite 0))) =
              Inr (Number r) \<and> strictly_equal r x)"
    by (simp add: getDiscount_number subtract_multiply_zero_finite)
  have special:
    "getDiscount S (Primitive (Number PosInf)) (Primitive (Number (Finite 0))) = Inr (Number NaN)"
    "getDiscount S (Primitive (Number NegInf)) (Primitive (Number (Finite 0))) = Inr (Number NaN)"
    "getDiscount S (Primitive (Number NaN)) (Primitive (Number (Finite 0))) = Inr (Number NaN)"
    by (simp_all add: getDiscount_number multiply_def subtract_def)
  have number_default: "getDiscount S (Primitive (Number y)) (Primitive Undefined) =
      Inr (Number (subtract y (multiply y literal_0_1)))" for y
    by (simp add: getDiscount_def nullish_coalescing_def price_minus_price_times_def
        operator_times_def operator_minus_def arithmetic_def)
  have examples:
    "getDiscount S (Primitive (Number (Finite 100))) (Primitive Undefined) =
      Inr (Number (Finite 90))"
    "getDiscount S (Primitive (Number (Finite (2476979795053773 / 2251799813685248)))) (Primitive Undefined) =
      Inr (Number (Finite (8917127262193583 / 9007199254740992)))"
    "getDiscount S (Primitive (Number (Finite (2 ^ 1023)))) (Primitive (Number (Finite (- 2)))) =
      Inr (Number PosInf)"
    by (simp_all only: number_default getDiscount_number literal_0_1_eq example_100 example_1_1
        example_overflow)
  show ?thesis
    by (intro conjI) (rule default other others double finite special examples)+
qed

theorem getDiscount_nullish_default_witness:
  "\<not> nullish (Primitive (Boolean False) :: unit js_value) \<and>
   is_double 100 \<and>
   is_finite (Finite 100) \<and>
   (getDiscount (\<lambda>s. NaN) (Primitive (Number (Finite 100))) (Primitive (Boolean False))
      :: unit exn + primitive) = Inr (Number (Finite 100)) \<and>
   (getDiscount (\<lambda>s. NaN) (Primitive (Number (Finite 100))) (Primitive (Number (Finite 0)))
      :: unit exn + primitive) = Inr (Number (Finite 100))"
proof -
  have a: "\<not> nullish (Primitive (Boolean False) :: unit js_value)"
    by simp
  have b: "is_double 100"
    by (simp add: double_arithmetic)
  have c: "is_finite (Finite 100)"
    using b by simp
  have d: "(price_minus_price_times (\<lambda>s. NaN) (Primitive (Number (Finite 100)))
      (Primitive (Boolean False)) :: unit exn + primitive) = Inr (Number (Finite 100))"
    using subtract_multiply_zero_double [OF b]
    by (simp add: price_minus_price_times_def operator_times_def operator_minus_def
        arithmetic_def)
  note th = getDiscount_nullish_default [where ?'a = unit, of "\<lambda>s. NaN"
      "Primitive (Number (Finite 100))" "Primitive (Boolean False)" 100 "Finite 100"]
  from th a have "(getDiscount (\<lambda>s. NaN) (Primitive (Number (Finite 100)))
      (Primitive (Boolean False)) :: unit exn + primitive) =
      price_minus_price_times (\<lambda>s. NaN) (Primitive (Number (Finite 100)))
        (Primitive (Boolean False))"
    by blast
  moreover from th b have "(getDiscount (\<lambda>s. NaN) (Primitive (Number (Finite 100)))
      (Primitive (Number (Finite 0))) :: unit exn + primitive) = Inr (Number (Finite 100))"
    by blast
  ultimately show ?thesis
    using a b c d by simp
qed

section \<open>Properties of AuthLayout\<close>

text \<open>
  Claim C10. \<open>AuthLayout\<close> redirects to \<open>/dashboard\<close> exactly when the session it got is
  truthy: then the redirect is thrown and the children are not rendered; with a falsy
  session nothing is thrown and the result is the children inside a \<open>div\<close>, unchanged.
\<close>

theorem AuthLayout_redirects_iff_session:
  "(AuthLayout session children = Inl (NEXT_REDIRECT ''/dashboard'')) = truthy session \<and>
   (\<exists>path. AuthLayout session children = Inl (NEXT_REDIRECT path)) = truthy session \<and>
   (AuthLayout session children = Inr (Div children)) = (\<not> truthy session) \<and>
   (\<exists>element. AuthLayout session children = Inr element) = (\<not> truthy session) \<and>
   AuthLayout (Session s) children = Inl (NEXT_REDIRECT ''/dashboard'') \<and>
   AuthLayout NoSession children = Inr (Div children)"
  by (cases session) (simp_all add: AuthLayout_def redirect_def)

end
